theory Spec2Isabelle
  imports Main "HOL-Library.Char_ord" "HOL-Library.List_Lexorder"
begin

section \<open>Conversation identifiers\<close>

text \<open>
  \<^verbatim>\<open>routes/messages.js\<close>, line 58, derives the identifier of the conversation between
  the requesting user and a partner:
  \<^verbatim>\<open>const conversationId = [userId, partner.uid].sort().join('_');\<close>
  JavaScript's default \<^verbatim>\<open>sort()\<close> orders strings by their code units, a shorter
  string before each of its extensions; that is the lexicographic order on \<open>string\<close>
  (characters ordered by their code). The sorted array of a total order is unique, so
  the insertion sort of the library stands for the engine's algorithm.
\<close>

fun join :: "string \<Rightarrow> string list \<Rightarrow> string" where
  "join sep [] = []"
| "join sep [x] = x"
| "join sep (x # y # ys) = x @ sep @ join sep (y # ys)"

definition conversationId_of :: "string \<Rightarrow> string \<Rightarrow> string" where
  "conversationId_of userId partner_uid = join ''_'' (sort [userId, partner_uid])"

section \<open>Documents and the store\<close>

text \<open>
  The documents of the \<^verbatim>\<open>messages\<close>, \<^verbatim>\<open>notifications\<close>, \<^verbatim>\<open>users\<close> and
  \<^verbatim>\<open>connections\<close> collections, with the fields the handlers of \<^verbatim>\<open>index.js\<close>,
  \<^verbatim>\<open>routes/messages.js\<close> and \<^verbatim>\<open>routes/notifications.js\<close> write and read. A field
  that a handler copies from a client payload is a \<open>string option\<close>: \<open>None\<close> is
  JavaScript's \<^verbatim>\<open>undefined\<close>, which the driver stores as \<^verbatim>\<open>null\<close> and which
  a filter matches against \<^verbatim>\<open>null\<close> or a missing field. A payload is an object
  whose fields are strings or absent; other JavaScript values are left out. An
  \<^verbatim>\<open>ObjectId\<close> is a natural number, a \<^verbatim>\<open>Date\<close> is a number of milliseconds.
\<close>

record message =
  m_id :: "nat option"
  conversationId :: "string option"
  senderId :: "string option"
  receiverId :: "string option"
  content :: "string option"
  timestamp :: nat
  read :: bool
  readAt :: "nat option"
  createdAt :: "nat option"
  updatedAt :: "nat option"

record notification =
  n_id :: "nat option"
  userId :: "string option"
  n_type :: string
  title :: string
  n_message :: string
  n_senderId :: "string option"
  senderName :: string
  senderPhotoURL :: "string option"
  targetId :: "string option"
  targetType :: string
  n_read :: bool
  n_readAt :: "nat option"
  n_createdAt :: nat

record user =
  uid :: string
  displayName :: "string option"
  photoURL :: "string option"

record connection =
  c_senderId :: string
  c_receiverId :: string
  status :: string

datatype collection = Users | Connections | Messages | Notifications

datatype access = Read collection | Write collection

text \<open>
  The module-level state of \<^verbatim>\<open>index.js\<close>: the four collections, the presence map
  \<^verbatim>\<open>onlineUsers\<close> (user identity to socket id) and, of the socket server, the table of
  rooms (room key to the ids of the sockets joined to it). The socket server keeps the
  rooms in a map whose keys are whatever values the handlers pass, so \<^verbatim>\<open>undefined\<close>
  (\<open>None\<close>) is a key like any string. \<open>next_id\<close> is the supply of fresh
  \<^verbatim>\<open>ObjectId\<close>s, and \<open>log\<close> records every call issued to the store, in order.
\<close>

record server =
  usersCollection :: "user list"
  connectionsCollection :: "connection list"
  messagesCollection :: "message list"
  notificationsCollection :: "notification list"
  onlineUsers :: "string option \<rightharpoonup> string"
  rooms :: "string option \<Rightarrow> string set"
  next_id :: nat
  log :: "access list"

subsection \<open>The driver's operations\<close>

text \<open>
  A call to the store is asynchronous and may reject. Each operation takes a flag saying
  whether this call rejects, records the call in \<open>log\<close> and returns \<open>None\<close> when it
  rejects (the handler's \<^verbatim>\<open>catch\<close> branch runs then), \<open>Some\<close> result otherwise.
  \<^verbatim>\<open>updateMany\<close> and \<^verbatim>\<open>updateOne\<close> report as \<^verbatim>\<open>modifiedCount\<close> the number of
  documents that the update really changed: a matched document that already holds the
  values that \<^verbatim>\<open>$set\<close> writes is not counted.
\<close>

definition access :: "access \<Rightarrow> server \<Rightarrow> server" where
  "access a s = s\<lparr>log := log s @ [a]\<rparr>"

definition updateMany :: "('a \<Rightarrow> bool) \<Rightarrow> ('a \<Rightarrow> 'a) \<Rightarrow> 'a list \<Rightarrow> nat \<times> 'a list" where
  "updateMany q upd docs =
     (length (filter (\<lambda>d. q d \<and> upd d \<noteq> d) docs), map (\<lambda>d. if q d then upd d else d) docs)"

fun updateOne :: "('a \<Rightarrow> bool) \<Rightarrow> ('a \<Rightarrow> 'a) \<Rightarrow> 'a list \<Rightarrow> nat \<times> 'a list" where
  "updateOne q upd [] = (0, [])"
| "updateOne q upd (d # docs) =
     (if q d then ((if upd d \<noteq> d then 1 else 0), upd d # docs)
      else (case updateOne q upd docs of (n, docs') \<Rightarrow> (n, d # docs')))"


definition insertOne_message :: "bool \<Rightarrow> message \<Rightarrow> server \<Rightarrow> nat option \<times> server" where
  "insertOne_message rejected doc s =
     (let s1 = access (Write Messages) s in
      if rejected then (None, s1)
      else (Some (next_id s1),
            s1\<lparr>messagesCollection := messagesCollection s1 @ [doc\<lparr>m_id := Some (next_id s1)\<rparr>],
               next_id := Suc (next_id s1)\<rparr>))"

definition insertOne_notification ::
  "bool \<Rightarrow> notification \<Rightarrow> server \<Rightarrow> nat option \<times> server" where
  "insertOne_notification rejected doc s =
     (let s1 = access (Write Notifications) s in
      if rejected then (None, s1)
      else (Some (next_id s1),
            s1\<lparr>notificationsCollection :=
                 notificationsCollection s1 @ [doc\<lparr>n_id := Some (next_id s1)\<rparr>],
               next_id := Suc (next_id s1)\<rparr>))"

definition findOne_user :: "bool \<Rightarrow> (user \<Rightarrow> bool) \<Rightarrow> server \<Rightarrow> user option option \<times> server" where
  "findOne_user rejected q s =
     (let s1 = access (Read Users) s in
      if rejected then (None, s1) else (Some (find q (usersCollection s1)), s1))"

definition findOne_connection ::
  "bool \<Rightarrow> (connection \<Rightarrow> bool) \<Rightarrow> server \<Rightarrow> connection option option \<times> server" where
  "findOne_connection rejected q s =
     (let s1 = access (Read Connections) s in
      if rejected then (None, s1) else (Some (find q (connectionsCollection s1)), s1))"


text \<open>
  \<^verbatim>\<open>find(q).sort({ timestamp: -1 }).limit(n).toArray()\<close>: the matching messages, newest
  first, at most \<open>n\<close> of them. The store leaves the order of messages with one
  timestamp open; here the later document comes first.
\<close>

definition find_messages ::
  "bool \<Rightarrow> (message \<Rightarrow> bool) \<Rightarrow> nat \<Rightarrow> server \<Rightarrow> message list option \<times> server" where
  "find_messages rejected q n s =
     (let s1 = access (Read Messages) s in
      if rejected then (None, s1)
      else (Some (take n (rev (sort_key timestamp (filter q (messagesCollection s1))))), s1))"

definition updateMany_messages ::
  "bool \<Rightarrow> (message \<Rightarrow> bool) \<Rightarrow> (message \<Rightarrow> message) \<Rightarrow> server \<Rightarrow> nat option \<times> server" where
  "updateMany_messages rejected q upd s =
     (let s1 = access (Write Messages) s in
      if rejected then (None, s1)
      else (case updateMany q upd (messagesCollection s1) of
              (modifiedCount, docs) \<Rightarrow> (Some modifiedCount, s1\<lparr>messagesCollection := docs\<rparr>)))"


definition updateMany_notifications ::
  "bool \<Rightarrow> (notification \<Rightarrow> bool) \<Rightarrow> (notification \<Rightarrow> notification) \<Rightarrow> server
     \<Rightarrow> nat option \<times> server" where
  "updateMany_notifications rejected q upd s =
     (let s1 = access (Write Notifications) s in
      if rejected then (None, s1)
      else (case updateMany q upd (notificationsCollection s1) of
              (modifiedCount, docs) \<Rightarrow>
                (Some modifiedCount, s1\<lparr>notificationsCollection := docs\<rparr>)))"

definition updateOne_notification ::
  "bool \<Rightarrow> (notification \<Rightarrow> bool) \<Rightarrow> (notification \<Rightarrow> notification) \<Rightarrow> server
     \<Rightarrow> nat option \<times> server" where
  "updateOne_notification rejected q upd s =
     (let s1 = access (Write Notifications) s in
      if rejected then (None, s1)
      else (case updateOne q upd (notificationsCollection s1) of
              (modifiedCount, docs) \<Rightarrow>
                (Some modifiedCount, s1\<lparr>notificationsCollection := docs\<rparr>)))"

definition countDocuments_notifications ::
  "bool \<Rightarrow> (notification \<Rightarrow> bool) \<Rightarrow> server \<Rightarrow> nat option \<times> server" where
  "countDocuments_notifications rejected q s =
     (let s1 = access (Read Notifications) s in
      if rejected then (None, s1)
      else (Some (length (filter q (notificationsCollection s1))), s1))"

text \<open>
  \<^verbatim>\<open>getUnreadCount(userId)\<close> of \<^verbatim>\<open>index.js\<close>:
  \<^verbatim>\<open>notificationsCollection.countDocuments({ userId, read: false })\<close>.
\<close>

definition getUnreadCount :: "bool \<Rightarrow> string option \<Rightarrow> server \<Rightarrow> nat option \<times> server" where
  "getUnreadCount rejected u s =
     countDocuments_notifications rejected (\<lambda>n. userId n = u \<and> \<not> n_read n) s"

section \<open>The real-time gateway\<close>

text \<open>
  What a handler emits. The four ways \<^verbatim>\<open>index.js\<close> addresses an emit:
  \<^verbatim>\<open>io.to(room).emit\<close> reaches every socket joined to the room,
  \<^verbatim>\<open>socket.to(room).emit\<close> every socket of the room but the handler's own,
  \<^verbatim>\<open>socket.emit\<close> the handler's own socket only, and \<^verbatim>\<open>socket.broadcast.emit\<close>
  every connected socket but the handler's own. The room is looked up under the key
  that the handler passes, \<^verbatim>\<open>undefined\<close> included: a socket that has joined with an
  undefined \<^verbatim>\<open>conversationId\<close> is reached by an emit to an undefined one. Every socket
  is joined to the room named by its own id from its connection on, which is how
  \<^verbatim>\<open>io.to(receiverSocketId)\<close> reaches one socket.
\<close>

datatype target =
    Io_to "string option"
  | Socket_to string "string option"
  | Socket_emit string
  | Socket_broadcast string

datatype payload =
    Message_doc message
  | Notification_doc notification
  | Count nat
  | Error_text string
  | Typing "string option" "bool option"
  | Read_by "string option"
  | Status "string option" string

datatype emission = Emit target string payload

fun recipients ::
  "(string option \<Rightarrow> string set) \<Rightarrow> string set \<Rightarrow> target \<Rightarrow> string set" where
  "recipients rs connected (Io_to room) = rs room"
| "recipients rs connected (Socket_to socket room) = rs room - {socket}"
| "recipients rs connected (Socket_emit socket) = {socket}"
| "recipients rs connected (Socket_broadcast socket) = connected - {socket}"

text \<open>The names of the events that one socket receives from a list of emissions.\<close>

fun events_for ::
  "(string option \<Rightarrow> string set) \<Rightarrow> string set \<Rightarrow> string \<Rightarrow> emission list
     \<Rightarrow> string list" where
  "events_for rs connected socket [] = []"
| "events_for rs connected socket (Emit t event p # es) =
     (if socket \<in> recipients rs connected t then event # events_for rs connected socket es
      else events_for rs connected socket es)"

text \<open>A template literal prints \<^verbatim>\<open>undefined\<close> for an undefined value.\<close>

definition notifications_room :: "string option \<Rightarrow> string" where
  "notifications_room u =
     ''notifications_'' @ (case u of None \<Rightarrow> ''undefined'' | Some x \<Rightarrow> x)"

text \<open>
  \<^verbatim>\<open>io.on('connection')\<close>: the socket server joins the new socket to the room of its
  own id. \<^verbatim>\<open>join-conversation\<close> and \<^verbatim>\<open>leave-conversation\<close> are
  \<^verbatim>\<open>socket.join(conversationId)\<close> and \<^verbatim>\<open>socket.leave(conversationId)\<close>, whatever
  the event's argument is: a string or, when the client sends none, \<^verbatim>\<open>undefined\<close>.
\<close>

definition on_connection :: "string \<Rightarrow> server \<Rightarrow> server" where
  "on_connection socket s =
     s\<lparr>rooms := (rooms s)(Some socket := insert socket (rooms s (Some socket)))\<rparr>"

definition join_conversation :: "string \<Rightarrow> string option \<Rightarrow> server \<Rightarrow> server" where
  "join_conversation socket room s =
     s\<lparr>rooms := (rooms s)(room := insert socket (rooms s room))\<rparr>"

definition leave_conversation :: "string \<Rightarrow> string option \<Rightarrow> server \<Rightarrow> server" where
  "leave_conversation socket room s =
     s\<lparr>rooms := (rooms s)(room := rooms s room - {socket})\<rparr>"

text \<open>
  \<^verbatim>\<open>socket.on('user-online')\<close>: registers the socket in \<^verbatim>\<open>onlineUsers\<close>, broadcasts
  the status, joins the user's notification room and sends the unread count to the
  caller. The handler has no \<^verbatim>\<open>try\<close>: a rejected count emits nothing more.
\<close>

definition user_online ::
  "(nat \<Rightarrow> bool) \<Rightarrow> string \<Rightarrow> string option \<Rightarrow> server \<Rightarrow> emission list \<times> server" where
  "user_online rejects socket u s =
     (let s1 = s\<lparr>onlineUsers := (onlineUsers s)(u \<mapsto> socket)\<rparr>;
          out1 = [Emit (Socket_broadcast socket) ''user-status-changed'' (Status u ''online'')];
          s2 = join_conversation socket (Some (notifications_room u)) s1
      in case getUnreadCount (rejects 0) u s2 of
           (None, s3) \<Rightarrow> (out1, s3)
         | (Some count, s3) \<Rightarrow>
             (out1 @ [Emit (Socket_emit socket) ''notification-count'' (Count count)], s3))"

text \<open>
  \<^verbatim>\<open>socket.on('send-message')\<close>, lines 98 to 152 of \<^verbatim>\<open>index.js\<close>. The arguments
  \<open>c\<close>, \<open>sid\<close>, \<open>rid\<close> and \<open>text\<close> are the payload's \<^verbatim>\<open>conversationId\<close>,
  \<^verbatim>\<open>senderId\<close>, \<^verbatim>\<open>receiverId\<close> and \<^verbatim>\<open>content\<close>; \<open>now\<close> is the clock that
  every \<^verbatim>\<open>new Date()\<close> of the run reads; \<open>rejects k\<close> says whether the handler's
  \<open>k\<close>-th call to the store, counted from 0 in the order of the source, rejects.
  Nothing is checked before the message is inserted.
  \<^verbatim>\<open>content.substring\<close> throws a \<^verbatim>\<open>TypeError\<close> on an undefined \<^verbatim>\<open>content\<close>, after
  the message is inserted and the sender looked up; like a rejected call it ends in
  the \<^verbatim>\<open>catch\<close> branch, which emits \<^verbatim>\<open>message-error\<close> to the handler's socket.
\<close>

definition message_error :: "string \<Rightarrow> emission" where
  "message_error socket =
     Emit (Socket_emit socket) ''message-error'' (Error_text ''Failed to send message'')"

definition send_message ::
  "(nat \<Rightarrow> bool) \<Rightarrow> nat \<Rightarrow> string \<Rightarrow> string option \<Rightarrow> string option \<Rightarrow> string option
     \<Rightarrow> string option \<Rightarrow> server \<Rightarrow> emission list \<times> server" where
  "send_message rejects now socket c sid rid text s =
     (let message = \<lparr>m_id = None, conversationId = c, senderId = sid, receiverId = rid,
                      content = text, timestamp = now, read = False, readAt = None,
                      createdAt = None, updatedAt = None\<rparr>
      in case insertOne_message (rejects 0) message s of
        (None, s1) \<Rightarrow> ([message_error socket], s1)
      | (Some insertedId, s1) \<Rightarrow>
     (let message = message\<lparr>m_id := Some insertedId\<rparr>
      in case findOne_user (rejects 1) (\<lambda>u. Some (uid u) = sid) s1 of
        (None, s2) \<Rightarrow> ([message_error socket], s2)
      | (Some sender, s2) \<Rightarrow>
     (case text of
        None \<Rightarrow> ([message_error socket], s2)
      | Some str \<Rightarrow>
     (let notification =
            \<lparr>n_id = None, userId = rid, n_type = ''new_message'', title = ''New Message'',
             n_message = take 100 str @ (if length str > 100 then ''...'' else []),
             n_senderId = sid,
             senderName =
               (case sender of None \<Rightarrow> ''Someone''
                | Some u \<Rightarrow>
                    (case displayName u of None \<Rightarrow> ''Someone''
                     | Some name \<Rightarrow> if name = [] then ''Someone'' else name)),
             senderPhotoURL = (case sender of None \<Rightarrow> None | Some u \<Rightarrow> photoURL u),
             targetId = c, targetType = ''message'', n_read = False, n_readAt = None,
             n_createdAt = now\<rparr>
      in case insertOne_notification (rejects 2) notification s2 of
        (None, s3) \<Rightarrow> ([message_error socket], s3)
      | (Some notificationId, s3) \<Rightarrow>
     (let notification = notification\<lparr>n_id := Some notificationId\<rparr>;
          room_out = [Emit (Io_to c) ''receive-message'' (Message_doc message),
                      Emit (Socket_emit socket) ''message-sent'' (Message_doc message)]
      in case onlineUsers s3 rid of
        None \<Rightarrow> (room_out, s3)
      | Some receiverSocketId \<Rightarrow>
          if receiverSocketId = [] then (room_out, s3)
          else
            (let out1 = [Emit (Io_to (Some receiverSocketId)) ''new-notification''
                          (Notification_doc notification)]
             in case getUnreadCount (rejects 3) rid s3 of
               (None, s4) \<Rightarrow> (out1 @ [message_error socket], s4)
             | (Some count, s4) \<Rightarrow>
                 (out1 @ [Emit (Io_to (Some (notifications_room rid))) ''notification-count''
                            (Count count)] @ room_out, s4)))))))"

text \<open>
  \<^verbatim>\<open>socket.on('typing')\<close>: \<^verbatim>\<open>socket.to(conversationId).emit('user-typing', ...)\<close>.
\<close>

definition typing ::
  "string \<Rightarrow> string option \<Rightarrow> string option \<Rightarrow> bool option \<Rightarrow> server
     \<Rightarrow> emission list \<times> server" where
  "typing socket c u isTyping s =
     ([Emit (Socket_to socket c) ''user-typing'' (Typing u isTyping)], s)"

text \<open>
  \<^verbatim>\<open>socket.on('mark-read')\<close>, lines 164 to 183 of \<^verbatim>\<open>index.js\<close>: one
  \<^verbatim>\<open>updateMany\<close> on the messages of conversation \<open>c\<close> addressed to \<open>u\<close> and still
  unread, then \<^verbatim>\<open>messages-read\<close> to the rest of the room. A rejected update is logged
  to the console only.
\<close>

definition mark_read ::
  "(nat \<Rightarrow> bool) \<Rightarrow> nat \<Rightarrow> string \<Rightarrow> string option \<Rightarrow> string option \<Rightarrow> server
     \<Rightarrow> emission list \<times> server" where
  "mark_read rejects now socket c u s =
     (case updateMany_messages (rejects 0)
             (\<lambda>m. conversationId m = c \<and> receiverId m = u \<and> read m = False)
             (\<lambda>m. m\<lparr>read := True, readAt := Some now\<rparr>) s of
        (None, s1) \<Rightarrow> ([], s1)
      | (Some modifiedCount, s1) \<Rightarrow>
          ([Emit (Socket_to socket c) ''messages-read'' (Read_by u)], s1))"

text \<open>
  \<^verbatim>\<open>socket.on('mark-all-notifications-read')\<close>, lines 203 to 217 of \<^verbatim>\<open>index.js\<close>:
  one \<^verbatim>\<open>updateMany\<close>, then the constant count \<^verbatim>\<open>0\<close> to the user's notification room.
\<close>

definition mark_all_notifications_read ::
  "(nat \<Rightarrow> bool) \<Rightarrow> nat \<Rightarrow> string \<Rightarrow> string option \<Rightarrow> server \<Rightarrow> emission list \<times> server" where
  "mark_all_notifications_read rejects now socket u s =
     (case updateMany_notifications (rejects 0)
             (\<lambda>n. userId n = u \<and> n_read n = False)
             (\<lambda>n. n\<lparr>n_read := True, n_readAt := Some now\<rparr>) s of
        (None, s1) \<Rightarrow> ([], s1)
      | (Some modifiedCount, s1) \<Rightarrow>
          ([Emit (Io_to (Some (notifications_room u))) ''notification-count'' (Count 0)], s1))"

section \<open>The REST routes\<close>

text \<open>
  A response is its HTTP status and its JSON body. Every \<^verbatim>\<open>catch\<close> branch of the
  routes answers 500 with the message \<^verbatim>\<open>Internal server error\<close>.
\<close>

datatype body =
    Failure string
  | Messages_page "message list" bool
  | Message_sent message
  | Modified nat
  | Unread nat
  | Succeeded string

datatype response = Response nat body

definition internal_error :: response where
  "internal_error = Response 500 (Failure ''Internal server error'')"

text \<open>
  JavaScript's \<^verbatim>\<open>!x\<close> on a value that is a string or undefined, \<^verbatim>\<open>trim()\<close> and
  \<^verbatim>\<open>split(sep)\<close> on a one-character separator. A character of a \<open>string\<close> is a
  code unit below 256; of these, \<^verbatim>\<open>trim()\<close> strips the white space and line
  terminators U+0009 to U+000D, U+0020 and the no-break space U+00A0.
\<close>

definition falsy :: "string option \<Rightarrow> bool" where
  "falsy x = (x = None \<or> x = Some [])"

definition is_space :: "char \<Rightarrow> bool" where
  "is_space ch =
     (ch \<in> set [CHR '' '', CHR 0x09, CHR 0x0A, CHR 0x0B, CHR 0x0C, CHR 0x0D, CHR 0xA0])"

definition trim :: "string \<Rightarrow> string" where
  "trim str = rev (dropWhile is_space (rev (dropWhile is_space str)))"

fun split_str :: "char \<Rightarrow> string \<Rightarrow> string list" where
  "split_str sep [] = [[]]"
| "split_str sep (ch # str) =
     (if ch = sep then [] # split_str sep str
      else (case split_str sep str of
              [] \<Rightarrow> [[ch]]
            | piece # pieces \<Rightarrow> (ch # piece) # pieces))"

text \<open>
  \<^verbatim>\<open>const [user1Id, user2Id] = conversationId.split('_');\<close> an array shorter than the
  pattern leaves the missing name undefined.
\<close>

definition user1Id :: "string \<Rightarrow> string option" where
  "user1Id c = (case split_str CHR ''_'' c of [] \<Rightarrow> None | a # pieces \<Rightarrow> Some a)"

definition user2Id :: "string \<Rightarrow> string option" where
  "user2Id c = (case split_str CHR ''_'' c of a # b # pieces \<Rightarrow> Some b | _ \<Rightarrow> None)"

subsection \<open>routes/messages.js\<close>

text \<open>
  \<^verbatim>\<open>GET /conversation/:conversationId\<close>, lines 110 to 169. \<open>c\<close> is the route
  parameter, \<open>u\<close> the query's \<^verbatim>\<open>userId\<close>, \<open>limit_q\<close> the query's \<^verbatim>\<open>limit\<close> as
  \<^verbatim>\<open>parseInt\<close> reads it (\<open>None\<close> when it is absent or no number) and \<open>before_q\<close>
  the query's \<^verbatim>\<open>before\<close> as a date.
\<close>

definition get_conversation ::
  "(nat \<Rightarrow> bool) \<Rightarrow> nat \<Rightarrow> string \<Rightarrow> string option \<Rightarrow> nat option \<Rightarrow> nat option \<Rightarrow> server
     \<Rightarrow> response \<times> server" where
  "get_conversation rejects now c u limit_q before_q s =
     (let limit = (case limit_q of None \<Rightarrow> 50 | Some n \<Rightarrow> if n = 0 then 50 else n);
          before = (case before_q of None \<Rightarrow> now | Some t \<Rightarrow> t)
      in if u \<notin> set [user1Id c, user2Id c]
         then (Response 403 (Failure ''Access denied to this conversation''), s)
         else
           (case find_messages (rejects 0)
                   (\<lambda>m. conversationId m = Some c \<and> timestamp m < before) limit s of
              (None, s1) \<Rightarrow> (internal_error, s1)
            | (Some found, s1) \<Rightarrow>
                (let messages = rev found
                 in if \<not> falsy u
                    then
                      (case updateMany_messages (rejects 1)
                              (\<lambda>m. conversationId m = Some c \<and> receiverId m = u \<and> read m = False)
                              (\<lambda>m. m\<lparr>read := True, readAt := Some now\<rparr>) s1 of
                         (None, s2) \<Rightarrow> (internal_error, s2)
                       | (Some modifiedCount, s2) \<Rightarrow>
                           (Response 200 (Messages_page messages (length messages = limit)), s2))
                    else (Response 200 (Messages_page messages (length messages = limit)), s1))))"

text \<open>
  \<^verbatim>\<open>POST /send\<close>, lines 172 to 250: the body's four fields are checked, then the
  format of the conversation id, then both users are looked up (\<^verbatim>\<open>Promise.all\<close> issues
  both reads), then their accepted connection, and only then the message is inserted.
\<close>

definition post_send ::
  "(nat \<Rightarrow> bool) \<Rightarrow> nat \<Rightarrow> string option \<Rightarrow> string option \<Rightarrow> string option \<Rightarrow> string option
     \<Rightarrow> server \<Rightarrow> response \<times> server" where
  "post_send rejects now c sid rid text s =
     (if falsy c \<or> falsy sid \<or> falsy rid \<or> falsy (map_option trim text)
      then (Response 400 (Failure ''Missing required fields''), s)
      else
        (case (c, sid, rid, text) of
           (Some cs, Some sender_id, Some receiver_id, Some str) \<Rightarrow>
             if falsy (user1Id cs) \<or> falsy (user2Id cs) \<or> user1Id cs = user2Id cs
             then (Response 400 (Failure ''Invalid conversation ID''), s)
             else
               (case findOne_user (rejects 0) (\<lambda>x. uid x = sender_id) s of (sender, s1) \<Rightarrow>
               (case findOne_user (rejects 1) (\<lambda>x. uid x = receiver_id) s1 of (receiver, s2) \<Rightarrow>
               (case (sender, receiver) of
                  (Some (Some sender_doc), Some (Some receiver_doc)) \<Rightarrow>
                    (case findOne_connection (rejects 2)
                            (\<lambda>k. (c_senderId k = sender_id \<and> c_receiverId k = receiver_id
                                   \<or> c_senderId k = receiver_id \<and> c_receiverId k = sender_id)
                                  \<and> status k = ''accepted'') s2 of
                       (None, s3) \<Rightarrow> (internal_error, s3)
                     | (Some None, s3) \<Rightarrow>
                         (Response 403 (Failure ''You can only message your connections''), s3)
                     | (Some (Some connection_doc), s3) \<Rightarrow>
                         (let message =
                                \<lparr>m_id = None, conversationId = c, senderId = sid,
                                 receiverId = rid, content = Some (trim str), timestamp = now,
                                 read = False, readAt = None, createdAt = Some now,
                                 updatedAt = Some now\<rparr>
                          in case insertOne_message (rejects 3) message s3 of
                               (None, s4) \<Rightarrow> (internal_error, s4)
                             | (Some insertedId, s4) \<Rightarrow>
                                 (Response 201 (Message_sent (message\<lparr>m_id := Some insertedId\<rparr>)),
                                  s4)))
                | (None, _) \<Rightarrow> (internal_error, s2)
                | (_, None) \<Rightarrow> (internal_error, s2)
                | _ \<Rightarrow> (Response 404 (Failure ''User not found''), s2))))
         | _ \<Rightarrow> (Response 400 (Failure ''Missing required fields''), s)))"

text \<open>
  \<^verbatim>\<open>POST /mark-read\<close>, lines 253 to 292: both fields are required; the update also
  stamps \<^verbatim>\<open>updatedAt\<close>; the answer carries the update's \<^verbatim>\<open>modifiedCount\<close>.
\<close>

definition post_mark_read ::
  "(nat \<Rightarrow> bool) \<Rightarrow> nat \<Rightarrow> string option \<Rightarrow> string option \<Rightarrow> server \<Rightarrow> response \<times> server" where
  "post_mark_read rejects now c u s =
     (if falsy c \<or> falsy u then (Response 400 (Failure ''Missing required fields''), s)
      else
        (case updateMany_messages (rejects 0)
                (\<lambda>m. conversationId m = c \<and> receiverId m = u \<and> read m = False)
                (\<lambda>m. m\<lparr>read := True, readAt := Some now, updatedAt := Some now\<rparr>) s of
           (None, s1) \<Rightarrow> (internal_error, s1)
         | (Some modifiedCount, s1) \<Rightarrow> (Response 200 (Modified modifiedCount), s1)))"


subsection \<open>routes/notifications.js\<close>

text \<open>
  \<^verbatim>\<open>GET /unread-count/:userId\<close>, lines 60 to 81.
\<close>

definition get_unread_count :: "(nat \<Rightarrow> bool) \<Rightarrow> string \<Rightarrow> server \<Rightarrow> response \<times> server" where
  "get_unread_count rejects u s =
     (case countDocuments_notifications (rejects 0)
             (\<lambda>n. userId n = Some u \<and> n_read n = False) s of
        (None, s1) \<Rightarrow> (internal_error, s1)
      | (Some count, s1) \<Rightarrow> (Response 200 (Unread count), s1))"

text \<open>
  \<^verbatim>\<open>PUT /mark-read/:notificationId\<close>, lines 84 to 126. The filter is the id and the
  owner only, not the read flag; \<^verbatim>\<open>$set\<close> writes \<^verbatim>\<open>read: true\<close> and a fresh
  \<^verbatim>\<open>readAt\<close>; a \<^verbatim>\<open>modifiedCount\<close> of 0 is answered 404.
\<close>

definition put_mark_read ::
  "(nat \<Rightarrow> bool) \<Rightarrow> nat \<Rightarrow> nat option \<Rightarrow> string option \<Rightarrow> server \<Rightarrow> response \<times> server" where
  "put_mark_read rejects now notificationId u s =
     (case notificationId of
        None \<Rightarrow> (Response 400 (Failure ''Invalid notification ID''), s)
      | Some oid \<Rightarrow>
          (case updateOne_notification (rejects 0)
                  (\<lambda>n. n_id n = Some oid \<and> userId n = u)
                  (\<lambda>n. n\<lparr>n_read := True, n_readAt := Some now\<rparr>) s of
             (None, s1) \<Rightarrow> (internal_error, s1)
           | (Some modifiedCount, s1) \<Rightarrow>
               if modifiedCount = 0
               then (Response 404 (Failure ''Notification not found''), s1)
               else
                 (case countDocuments_notifications (rejects 1)
                         (\<lambda>n. userId n = u \<and> n_read n = False) s1 of
                    (None, s2) \<Rightarrow> (internal_error, s2)
                  | (Some unreadCount, s2) \<Rightarrow> (Response 200 (Unread unreadCount), s2))))"

text \<open>
  \<^verbatim>\<open>PUT /mark-all-read/:userId\<close>, lines 129 to 151: the answer carries the update's
  \<^verbatim>\<open>modifiedCount\<close>.
\<close>

definition put_mark_all_read ::
  "(nat \<Rightarrow> bool) \<Rightarrow> nat \<Rightarrow> string \<Rightarrow> server \<Rightarrow> response \<times> server" where
  "put_mark_all_read rejects now u s =
     (case updateMany_notifications (rejects 0)
             (\<lambda>n. userId n = Some u \<and> n_read n = False)
             (\<lambda>n. n\<lparr>n_read := True, n_readAt := Some now\<rparr>) s of
        (None, s1) \<Rightarrow> (internal_error, s1)
      | (Some modifiedCount, s1) \<Rightarrow> (Response 200 (Modified modifiedCount), s1))"

section \<open>Scenarios\<close>

text \<open>
  Concrete inputs on which the properties below are evaluated. \<open>never\<close> is the run
  in which no call to the store rejects. \<open>boot\<close> is the server as \<^verbatim>\<open>index.js\<close> starts
  it, with empty collections. In \<open>two_tabs\<close> the sockets \<open>s1\<close> and \<open>s2\<close> are
  connected and have both joined the conversation \<open>u1_u2\<close>. In \<open>no_room\<close> they
  are connected and \<open>s2\<close> has sent \<^verbatim>\<open>join-conversation\<close> with no argument.
\<close>

definition never :: "nat \<Rightarrow> bool" where
  "never k = False"

definition boot :: server where
  "boot = \<lparr>usersCollection = [], connectionsCollection = [], messagesCollection = [],
           notificationsCollection = [], onlineUsers = Map.empty, rooms = (\<lambda>room. {}),
           next_id = 0, log = []\<rparr>"

definition two_tabs :: server where
  "two_tabs =
     join_conversation ''s2'' (Some ''u1_u2'') (on_connection ''s2''
       (join_conversation ''s1'' (Some ''u1_u2'') (on_connection ''s1'' boot)))"

definition no_room :: server where
  "no_room = join_conversation ''s2'' None (on_connection ''s2'' (on_connection ''s1'' boot))"

text \<open>
  In \<open>inbox\<close> the users \<open>u1\<close> and \<open>u2\<close> exist and are not connected; each has
  sent the other one message, both unread; \<open>u2\<close> has one unread notification and one
  that was read at time 5.
\<close>

definition inbox :: server where
  "inbox =
     \<lparr>usersCollection =
        [\<lparr>uid = ''u1'', displayName = Some ''Ann'', photoURL = None\<rparr>,
         \<lparr>uid = ''u2'', displayName = None, photoURL = None\<rparr>],
      connectionsCollection = [],
      messagesCollection =
        [\<lparr>m_id = Some 0, conversationId = Some ''u1_u2'', senderId = Some ''u1'',
          receiverId = Some ''u2'', content = Some ''hi'', timestamp = 1, read = False,
          readAt = None, createdAt = None, updatedAt = None\<rparr>,
         \<lparr>m_id = Some 1, conversationId = Some ''u1_u2'', senderId = Some ''u2'',
          receiverId = Some ''u1'', content = Some ''hello'', timestamp = 2, read = False,
          readAt = None, createdAt = None, updatedAt = None\<rparr>],
      notificationsCollection =
        [\<lparr>n_id = Some 10, userId = Some ''u2'', n_type = ''new_message'',
          title = ''New Message'', n_message = ''hi'', n_senderId = Some ''u1'',
          senderName = ''Ann'', senderPhotoURL = None, targetId = Some ''u1_u2'',
          targetType = ''message'', n_read = False, n_readAt = None, n_createdAt = 1\<rparr>,
         \<lparr>n_id = Some 11, userId = Some ''u2'', n_type = ''new_message'',
          title = ''New Message'', n_message = ''hey'', n_senderId = Some ''u1'',
          senderName = ''Ann'', senderPhotoURL = None, targetId = Some ''u1_u2'',
          targetType = ''message'', n_read = True, n_readAt = Some 5, n_createdAt = 4\<rparr>],
      onlineUsers = Map.empty, rooms = (\<lambda>room. {}), next_id = 12, log = []\<rparr>"

section \<open>Properties\<close>

text \<open>
  C4. For all pairs of user identities (A, B) the canonical conversation identifier of
  (A, B) equals that of (B, A): the two identities are sorted before they are joined
  with the separator \<open>_\<close>.
\<close>

theorem conversationId_of_commute:
  "conversationId_of a b = conversationId_of b a"
proof -
  have "sort [a, b] = sort [b, a]"
    by (cases "a \<le> b"; cases "b \<le> a") auto
  then show ?thesis
    by (simp only: conversationId_of_def)
qed

subsection \<open>Calls to the store that do not reject\<close>

lemma insertOne_message_ok:
  "insertOne_message False doc s =
     (Some (next_id s),
      s\<lparr>messagesCollection := messagesCollection s @ [doc\<lparr>m_id := Some (next_id s)\<rparr>],
        next_id := Suc (next_id s), log := log s @ [Write Messages]\<rparr>)"
  by (simp add: insertOne_message_def access_def)

lemma insertOne_notification_ok:
  "insertOne_notification False doc s =
     (Some (next_id s),
      s\<lparr>notificationsCollection := notificationsCollection s @ [doc\<lparr>n_id := Some (next_id s)\<rparr>],
        next_id := Suc (next_id s), log := log s @ [Write Notifications]\<rparr>)"
  by (simp add: insertOne_notification_def access_def)

lemma findOne_user_ok:
  "findOne_user False q s =
     (Some (find q (usersCollection s)), s\<lparr>log := log s @ [Read Users]\<rparr>)"
  by (simp add: findOne_user_def access_def)

lemma getUnreadCount_ok:
  "getUnreadCount False u s =
     (Some (length (filter (\<lambda>n. userId n = u \<and> \<not> n_read n) (notificationsCollection s))),
      s\<lparr>log := log s @ [Read Notifications]\<rparr>)"
  by (simp add: getUnreadCount_def countDocuments_notifications_def access_def)

lemmas gateway_eval =
  send_message_def insertOne_message_def findOne_user_def insertOne_notification_def
  getUnreadCount_def countDocuments_notifications_def access_def Let_def never_def boot_def
  two_tabs_def join_conversation_def on_connection_def message_error_def notifications_room_def

subsection \<open>Delivery of a sent message\<close>

lemma send_message_rooms:
  "rooms (snd (send_message rejects now socket c sid rid text s)) = rooms s"
  by (simp add: send_message_def insertOne_message_def findOne_user_def
      insertOne_notification_def getUnreadCount_def countDocuments_notifications_def
      access_def Let_def split: option.split)

lemma send_message_out:
  assumes "\<not> rejects 0" "\<not> rejects 1" "\<not> rejects 2" "\<not> rejects 3"
  shows "\<exists>m n k. fst (send_message rejects now socket c sid rid (Some str) s) =
     (case onlineUsers s rid of
        None \<Rightarrow> []
      | Some h \<Rightarrow>
          if h = [] then []
          else [Emit (Io_to (Some h)) ''new-notification'' (Notification_doc n),
                Emit (Io_to (Some (notifications_room rid))) ''notification-count'' (Count k)])
     @ [Emit (Io_to c) ''receive-message'' (Message_doc m),
        Emit (Socket_emit socket) ''message-sent'' (Message_doc m)]"
  using assms
  by (simp add: send_message_def insertOne_message_ok findOne_user_ok insertOne_notification_ok
      getUnreadCount_ok Let_def split: option.split)

text \<open>
  C1, as the code has it. When a \<^verbatim>\<open>send-message\<close> event carries a content and no call
  to the store rejects, \<^verbatim>\<open>receive-message\<close> is delivered to exactly the sockets joined
  to the room keyed by the event's \<^verbatim>\<open>conversationId\<close> (be it a string or undefined),
  the originating socket among them when it has joined, and \<^verbatim>\<open>message-sent\<close> to the
  originating socket and to no other.
\<close>

theorem send_message_delivery:
  assumes "\<not> rejects 0" "\<not> rejects 1" "\<not> rejects 2" "\<not> rejects 3"
    and "send_message rejects now socket c sid rid (Some str) s = (out, s')"
  shows "(''receive-message'' \<in> set (events_for (rooms s') connected x out)
            \<longleftrightarrow> x \<in> rooms s' c)
    \<and> (''message-sent'' \<in> set (events_for (rooms s') connected x out) \<longleftrightarrow> x = socket)"
proof -
  have r: "rooms s' = rooms s"
    using send_message_rooms [of rejects now socket c sid rid "Some str" s] assms(5) by simp
  obtain m n k where out: "out =
     (case onlineUsers s rid of
        None \<Rightarrow> []
      | Some h \<Rightarrow>
          if h = [] then []
          else [Emit (Io_to (Some h)) ''new-notification'' (Notification_doc n),
                Emit (Io_to (Some (notifications_room rid))) ''notification-count'' (Count k)])
     @ [Emit (Io_to c) ''receive-message'' (Message_doc m),
        Emit (Socket_emit socket) ''message-sent'' (Message_doc m)]"
    using send_message_out [OF assms(1-4), of now socket c sid rid str s] assms(5) by auto
  show ?thesis
    unfolding out r by (cases "onlineUsers s rid") auto
qed

text \<open>
  The theorem at work: \<open>s1\<close> sends into the room that \<open>s2\<close> has joined too; \<open>s2\<close>
  receives the message and no confirmation.
\<close>

theorem send_message_delivery_witness:
  "''receive-message'' \<in> set (events_for (rooms two_tabs) {''s1'', ''s2''} ''s2''
      (fst (send_message never 7 ''s1'' (Some ''u1_u2'') (Some ''u1'') (Some ''u2'')
              (Some ''hi'') two_tabs)))
   \<and> ''message-sent'' \<notin> set (events_for (rooms two_tabs) {''s1'', ''s2''} ''s2''
      (fst (send_message never 7 ''s1'' (Some ''u1_u2'') (Some ''u1'') (Some ''u2'')
              (Some ''hi'') two_tabs)))"
  using send_message_delivery [of never 7 "''s1''" "Some ''u1_u2''" "Some ''u1''" "Some ''u2''"
      "''hi''" two_tabs
      "fst (send_message never 7 ''s1'' (Some ''u1_u2'') (Some ''u1'') (Some ''u2'')
              (Some ''hi'') two_tabs)"
      "snd (send_message never 7 ''s1'' (Some ''u1_u2'') (Some ''u1'') (Some ''u2'')
              (Some ''hi'') two_tabs)"
      "{''s1'', ''s2''}" "''s2''"]
  by (simp add: gateway_eval)

text \<open>
  C1 as stated fails: the originating socket \<open>s1\<close>, joined to the conversation room,
  receives \<^verbatim>\<open>receive-message\<close> as well as \<^verbatim>\<open>message-sent\<close>, since the room emit is
  \<^verbatim>\<open>io.to(conversationId)\<close> and not \<^verbatim>\<open>socket.to(conversationId)\<close>.
\<close>

theorem receive_message_reaches_sender:
  "events_for (rooms two_tabs) {''s1'', ''s2''} ''s1''
     (fst (send_message never 7 ''s1'' (Some ''u1_u2'') (Some ''u1'') (Some ''u2'')
             (Some ''hi'') two_tabs))
   = [''receive-message'', ''message-sent'']"
  by (simp add: gateway_eval)

text \<open>
  The room of an undefined \<^verbatim>\<open>conversationId\<close> is a room too: \<open>s2\<close>, joined with no
  argument, receives what \<open>s1\<close> sends with no \<^verbatim>\<open>conversationId\<close>.
\<close>

lemma receive_message_undefined_room:
  "events_for (rooms no_room) {''s1'', ''s2''} ''s2''
     (fst (send_message never 7 ''s1'' None (Some ''u1'') (Some ''u2'') (Some ''hi'') no_room))
   = [''receive-message'']"
  by (simp add: gateway_eval no_room_def)

subsection \<open>A receiver who is not online\<close>

text \<open>
  C5. When the receiver of a \<^verbatim>\<open>send-message\<close> event has no entry in \<^verbatim>\<open>onlineUsers\<close>
  (the event carries a content and the store does not fail), the handler emits nothing
  but the room broadcast and the sender's confirmation, so nothing is addressed to a
  socket of the receiver, and one unread notification for the receiver has been appended
  to the notifications collection.
\<close>

theorem send_message_receiver_offline:
  assumes "onlineUsers s rid = None" "\<not> rejects 0" "\<not> rejects 1" "\<not> rejects 2"
    and "send_message rejects now socket c sid rid (Some str) s = (out, s')"
  shows "(\<exists>m. out = [Emit (Io_to c) ''receive-message'' (Message_doc m),
                      Emit (Socket_emit socket) ''message-sent'' (Message_doc m)])
    \<and> (\<exists>n. notificationsCollection s' = notificationsCollection s @ [n]
            \<and> userId n = rid \<and> n_type n = ''new_message'' \<and> n_senderId n = sid
            \<and> targetId n = c \<and> n_read n = False)"
  using assms
  by (auto simp: send_message_def insertOne_message_ok findOne_user_ok insertOne_notification_ok
      Let_def)

text \<open>The theorem at work: \<open>u2\<close> is not online when \<open>u1\<close> sends.\<close>

theorem send_message_receiver_offline_witness:
  "fst (send_message never 7 ''s1'' (Some ''u1_u2'') (Some ''u1'') (Some ''u2'') (Some ''hi'') two_tabs)
     = [Emit (Io_to (Some ''u1_u2'')) ''receive-message'' (Message_doc
          \<lparr>m_id = Some 0, conversationId = Some ''u1_u2'', senderId = Some ''u1'',
           receiverId = Some ''u2'', content = Some ''hi'', timestamp = 7, read = False,
           readAt = None, createdAt = None, updatedAt = None\<rparr>),
        Emit (Socket_emit ''s1'') ''message-sent'' (Message_doc
          \<lparr>m_id = Some 0, conversationId = Some ''u1_u2'', senderId = Some ''u1'',
           receiverId = Some ''u2'', content = Some ''hi'', timestamp = 7, read = False,
           readAt = None, createdAt = None, updatedAt = None\<rparr>)]
   \<and> map userId (notificationsCollection (snd (send_message never 7 ''s1'' (Some ''u1_u2'')
        (Some ''u1'') (Some ''u2'') (Some ''hi'') two_tabs))) = [Some ''u2'']"
  using send_message_receiver_offline [of two_tabs "Some ''u2''" never 7 "''s1''" "Some ''u1_u2''"
      "Some ''u1''" "''hi''"
      "fst (send_message never 7 ''s1'' (Some ''u1_u2'') (Some ''u1'') (Some ''u2'')
              (Some ''hi'') two_tabs)"
      "snd (send_message never 7 ''s1'' (Some ''u1_u2'') (Some ''u1'') (Some ''u2'')
              (Some ''hi'') two_tabs)"]
  by (simp add: gateway_eval)

text \<open>
  For contrast, the other side of the registry lookup. \<^verbatim>\<open>user-online\<close> is what
  enters a user into \<^verbatim>\<open>onlineUsers\<close>, and a receiver found there is sent the
  notification on the room of their socket id, before the room broadcast.
\<close>

lemma user_online_registers:
  "onlineUsers (snd (user_online rejects socket u s)) u = Some socket"
  by (simp add: user_online_def getUnreadCount_def countDocuments_notifications_def
      join_conversation_def access_def Let_def split: prod.split option.split)

lemma send_message_receiver_online:
  assumes "\<not> rejects 0" "\<not> rejects 1" "\<not> rejects 2" "\<not> rejects 3"
    and "onlineUsers s rid = Some h" and "h \<noteq> []"
  shows "\<exists>n. hd (fst (send_message rejects now socket c sid rid (Some str) s))
           = Emit (Io_to (Some h)) ''new-notification'' (Notification_doc n)"
  using send_message_out [OF assms(1-4), of now socket c sid rid str s] assms(5,6)
  by auto

text \<open>
  \<^verbatim>\<open>typing\<close> addresses the room with \<^verbatim>\<open>socket.to\<close>, which leaves the sender out.
\<close>

lemma typing_not_to_sender:
  "events_for rs connected socket (fst (typing socket c u isTyping s)) = []"
  by (simp add: typing_def)

subsection \<open>Payloads with a missing field\<close>

text \<open>
  C3 fails on the gateway. A \<^verbatim>\<open>send-message\<close> payload without \<^verbatim>\<open>content\<close> is not
  rejected before the store is written: the message is inserted, then
  \<^verbatim>\<open>content.substring\<close> throws, the sender is told \<^verbatim>\<open>message-error\<close>, and no
  notification is inserted.
\<close>

theorem send_message_without_content:
  "fst (send_message never 7 ''s1'' (Some ''u1_u2'') (Some ''u1'') (Some ''u2'') None boot)
     = [Emit (Socket_emit ''s1'') ''message-error'' (Error_text ''Failed to send message'')]
   \<and> messagesCollection
        (snd (send_message never 7 ''s1'' (Some ''u1_u2'') (Some ''u1'') (Some ''u2'') None boot))
     = [\<lparr>m_id = Some 0, conversationId = Some ''u1_u2'', senderId = Some ''u1'',
         receiverId = Some ''u2'', content = None, timestamp = 7, read = False,
         readAt = None, createdAt = None, updatedAt = None\<rparr>]
   \<and> notificationsCollection
        (snd (send_message never 7 ''s1'' (Some ''u1_u2'') (Some ''u1'') (Some ''u2'') None boot))
     = []"
  by (simp add: gateway_eval)

text \<open>The REST route \<^verbatim>\<open>POST /send\<close> does reject such a body, before any call to the store.\<close>

lemma post_send_missing_field:
  "falsy c \<or> falsy sid \<or> falsy rid \<or> falsy (map_option trim text) \<Longrightarrow>
   post_send rejects now c sid rid text s = (Response 400 (Failure ''Missing required fields''), s)"
  by (simp add: post_send_def)

subsection \<open>Marking a conversation read\<close>

lemma updateMany_messages_ok:
  "updateMany_messages False q upd s =
     (Some (length (filter (\<lambda>d. q d \<and> upd d \<noteq> d) (messagesCollection s))),
      s\<lparr>messagesCollection := map (\<lambda>d. if q d then upd d else d) (messagesCollection s),
        log := log s @ [Write Messages]\<rparr>)"
  by (simp add: updateMany_messages_def updateMany_def access_def)

lemma updateMany_notifications_ok:
  "updateMany_notifications False q upd s =
     (Some (length (filter (\<lambda>d. q d \<and> upd d \<noteq> d) (notificationsCollection s))),
      s\<lparr>notificationsCollection := map (\<lambda>d. if q d then upd d else d) (notificationsCollection s),
        log := log s @ [Write Notifications]\<rparr>)"
  by (simp add: updateMany_notifications_def updateMany_def access_def)

lemma list_all2_map_self:
  "list_all2 P xs (map f xs) \<longleftrightarrow> (\<forall>x \<in> set xs. P x (f x))"
  by (induction xs) auto

lemma inbox_messages:
  "messagesCollection inbox =
     [\<lparr>m_id = Some 0, conversationId = Some ''u1_u2'', senderId = Some ''u1'',
       receiverId = Some ''u2'', content = Some ''hi'', timestamp = 1, read = False,
       readAt = None, createdAt = None, updatedAt = None\<rparr>,
      \<lparr>m_id = Some 1, conversationId = Some ''u1_u2'', senderId = Some ''u2'',
       receiverId = Some ''u1'', content = Some ''hello'', timestamp = 2, read = False,
       readAt = None, createdAt = None, updatedAt = None\<rparr>]"
  by (simp add: inbox_def)

text \<open>
  C6. A mark-conversation-read operation whose update is not rejected, on the gateway
  (\<^verbatim>\<open>mark-read\<close>) and over REST (\<^verbatim>\<open>POST /mark-read\<close>, with both fields given), maps the
  messages collection document by document: a message of conversation \<open>c\<close> addressed
  to \<open>u\<close> and unread gets \<^verbatim>\<open>read = true\<close> and \<^verbatim>\<open>readAt\<close> set to the time of the
  call; a message addressed to anyone else is left as it was.
\<close>

theorem mark_read_frame:
  assumes "\<not> rejects 0"
  shows "list_all2
           (\<lambda>m m'. (conversationId m = c \<and> receiverId m = u \<and> read m = False
                       \<longrightarrow> read m' = True \<and> readAt m' = Some now)
                  \<and> (receiverId m \<noteq> u \<longrightarrow> m' = m))
           (messagesCollection s)
           (messagesCollection (snd (mark_read rejects now socket c u s)))
       \<and> (\<not> falsy c \<and> \<not> falsy u \<longrightarrow>
          list_all2
           (\<lambda>m m'. (conversationId m = c \<and> receiverId m = u \<and> read m = False
                       \<longrightarrow> read m' = True \<and> readAt m' = Some now)
                  \<and> (receiverId m \<noteq> u \<longrightarrow> m' = m))
           (messagesCollection s)
           (messagesCollection (snd (post_mark_read rejects now c u s))))"
  using assms
  by (simp add: mark_read_def post_mark_read_def updateMany_messages_ok list_all2_map_self)

text \<open>
  The theorem at work on \<open>inbox\<close>: \<open>u2\<close> marks the conversation read at time 9; the
  message to \<open>u2\<close> is read at 9, the message to \<open>u1\<close> stays unread.
\<close>

theorem mark_read_frame_witness:
  "map read (messagesCollection
       (snd (mark_read never 9 ''s2'' (Some ''u1_u2'') (Some ''u2'') inbox))) = [True, False]
   \<and> map readAt (messagesCollection
       (snd (mark_read never 9 ''s2'' (Some ''u1_u2'') (Some ''u2'') inbox))) = [Some 9, None]
   \<and> map read (messagesCollection
       (snd (post_mark_read never 9 (Some ''u1_u2'') (Some ''u2'') inbox))) = [True, False]
   \<and> map readAt (messagesCollection
       (snd (post_mark_read never 9 (Some ''u1_u2'') (Some ''u2'') inbox))) = [Some 9, None]"
proof -
  have h: "\<not> never 0"
    by (simp add: never_def)
  have f: "\<not> falsy (Some ''u1_u2'') \<and> \<not> falsy (Some ''u2'')"
    by (simp add: falsy_def)
  from mark_read_frame [where rejects = never and c = "Some ''u1_u2''" and u = "Some ''u2''"
      and now = 9 and s = inbox and socket = "''s2''", OF h] f
  show ?thesis
    unfolding inbox_messages by (auto simp: list_all2_Cons1)
qed

lemma updateMany_again:
  assumes "\<And>d. q d \<Longrightarrow> \<not> q (upd d)"
  shows "updateMany q upd' (snd (updateMany q upd docs)) = (0, snd (updateMany q upd docs))"
proof -
  have n: "\<And>d. \<not> q (if q d then upd d else d)"
    using assms by simp
  show ?thesis
    by (simp add: updateMany_def n filter_empty_conv o_def)
qed

lemma updateMany_messages_snd:
  "messagesCollection (snd (updateMany_messages False q upd s))
     = snd (updateMany q upd (messagesCollection s))"
  by (simp add: updateMany_messages_def access_def split: prod.split)

lemma updateMany_messages_again:
  assumes "\<And>d. q d \<Longrightarrow> \<not> q (upd d)"
  shows "updateMany_messages False q upd' (snd (updateMany_messages False q upd s))
     = (Some 0, access (Write Messages) (snd (updateMany_messages False q upd s)))"
proof -
  let ?s1 = "snd (updateMany_messages False q upd s)"
  have "updateMany q upd' (messagesCollection ?s1) = (0, messagesCollection ?s1)"
    unfolding updateMany_messages_snd by (rule updateMany_again [of q upd, OF assms])
  then show ?thesis
    by (simp add: updateMany_messages_def [of False q upd' ?s1] access_def)
qed

text \<open>
  C8. Marking a conversation read is idempotent. After one call whose update was not
  rejected, a second call for the same conversation and user (at any time, and again
  not rejected) modifies no document: the store is the same but for the logged call,
  the REST route answers 200 with \<^verbatim>\<open>modifiedCount\<close> 0, and the gateway emits
  \<^verbatim>\<open>messages-read\<close> as it did the first time.
\<close>

theorem mark_read_idempotent:
  assumes "\<not> rejects 0" "\<not> rejects' 0"
  shows "mark_read rejects' now' socket c u (snd (mark_read rejects now socket c u s))
           = ([Emit (Socket_to socket c) ''messages-read'' (Read_by u)],
              access (Write Messages) (snd (mark_read rejects now socket c u s)))
       \<and> (\<not> falsy c \<and> \<not> falsy u \<longrightarrow>
            post_mark_read rejects' now' c u (snd (post_mark_read rejects now c u s))
              = (Response 200 (Modified 0),
                 access (Write Messages) (snd (post_mark_read rejects now c u s))))"
proof -
  let ?q = "\<lambda>m. conversationId m = c \<and> receiverId m = u \<and> read m = False"
  have g: "snd (mark_read rejects now socket c u s)
             = snd (updateMany_messages False ?q (\<lambda>m. m\<lparr>read := True, readAt := Some now\<rparr>) s)"
    using assms(1) by (simp add: mark_read_def split: prod.split option.split)
  have r: "\<not> falsy c \<and> \<not> falsy u \<Longrightarrow> snd (post_mark_read rejects now c u s)
             = snd (updateMany_messages False ?q
                 (\<lambda>m. m\<lparr>read := True, readAt := Some now, updatedAt := Some now\<rparr>) s)"
    using assms(1) by (simp add: post_mark_read_def split: prod.split option.split)
  have "mark_read rejects' now' socket c u (snd (mark_read rejects now socket c u s))
           = ([Emit (Socket_to socket c) ''messages-read'' (Read_by u)],
              access (Write Messages) (snd (mark_read rejects now socket c u s)))"
    unfolding g using assms(2)
    by (simp add: mark_read_def [of rejects' now'] updateMany_messages_again)
  moreover have "\<not> falsy c \<and> \<not> falsy u \<Longrightarrow>
            post_mark_read rejects' now' c u (snd (post_mark_read rejects now c u s))
              = (Response 200 (Modified 0),
                 access (Write Messages) (snd (post_mark_read rejects now c u s)))"
    using assms(2)
    by (simp add: r post_mark_read_def [of rejects' now'] updateMany_messages_again)
  ultimately show ?thesis by blast
qed

text \<open>
  The theorem at work on \<open>inbox\<close>: the first \<^verbatim>\<open>POST /mark-read\<close> of \<open>u2\<close> modifies
  one message, the second, three milliseconds later, none, and both are answered 200.
\<close>

theorem mark_read_idempotent_witness:
  "fst (post_mark_read never 9 (Some ''u1_u2'') (Some ''u2'') inbox) = Response 200 (Modified 1)
   \<and> fst (post_mark_read never 12 (Some ''u1_u2'') (Some ''u2'')
           (snd (post_mark_read never 9 (Some ''u1_u2'') (Some ''u2'') inbox)))
       = Response 200 (Modified 0)
   \<and> fst (mark_read never 12 ''s2'' (Some ''u1_u2'') (Some ''u2'')
           (snd (mark_read never 9 ''s2'' (Some ''u1_u2'') (Some ''u2'') inbox)))
       = [Emit (Socket_to ''s2'' (Some ''u1_u2'')) ''messages-read'' (Read_by (Some ''u2''))]"
proof -
  have h: "\<not> never 0"
    by (simp add: never_def)
  have f: "\<not> falsy (Some ''u1_u2'') \<and> \<not> falsy (Some ''u2'')"
    by (simp add: falsy_def)
  have first: "fst (post_mark_read never 9 (Some ''u1_u2'') (Some ''u2'') inbox)
                 = Response 200 (Modified 1)"
    by (simp add: post_mark_read_def falsy_def never_def updateMany_messages_ok inbox_messages)
  from mark_read_idempotent [where rejects = never and rejects' = never
      and c = "Some ''u1_u2''" and u = "Some ''u2''" and now = 9 and now' = 12 and s = inbox
      and socket = "''s2''", OF h h] f first
  show ?thesis
    by simp
qed

subsection \<open>Marking all notifications read\<close>

text \<open>
  C7. After a mark-all-notifications-read whose update is not rejected, the gateway
  emits the count 0 to the user's notification room, the REST route answers 200, and
  on either path the count of the user's unread notifications, computed again on the
  resulting store by \<^verbatim>\<open>getUnreadCount\<close> or by \<^verbatim>\<open>GET /unread-count/:userId\<close>, is 0.
\<close>

theorem mark_all_read_count_zero:
  assumes "\<not> rejects 0"
  shows "fst (mark_all_notifications_read rejects now socket u s)
           = [Emit (Io_to (Some (notifications_room u))) ''notification-count'' (Count 0)]
       \<and> fst (getUnreadCount False u (snd (mark_all_notifications_read rejects now socket u s)))
           = Some 0
       \<and> (\<exists>k. fst (put_mark_all_read rejects now v s) = Response 200 (Modified k))
       \<and> fst (getUnreadCount False (Some v) (snd (put_mark_all_read rejects now v s))) = Some 0
       \<and> fst (get_unread_count never v (snd (put_mark_all_read rejects now v s)))
           = Response 200 (Unread 0)"
  using assms
  by (simp add: mark_all_notifications_read_def put_mark_all_read_def get_unread_count_def
      updateMany_notifications_ok getUnreadCount_ok countDocuments_notifications_def
      access_def never_def filter_map o_def)

text \<open>
  The theorem at work on \<open>inbox\<close>, where \<open>u2\<close> has one unread notification before.
\<close>

theorem mark_all_read_count_zero_witness:
  "fst (getUnreadCount False (Some ''u2'') inbox) = Some 1
   \<and> fst (getUnreadCount False (Some ''u2'')
           (snd (mark_all_notifications_read never 9 ''s2'' (Some ''u2'') inbox))) = Some 0
   \<and> fst (get_unread_count never ''u2'' (snd (put_mark_all_read never 9 ''u2'' inbox)))
       = Response 200 (Unread 0)"
proof -
  have h: "\<not> never 0"
    by (simp add: never_def)
  have before: "fst (getUnreadCount False (Some ''u2'') inbox) = Some 1"
    by (simp add: getUnreadCount_ok inbox_def)
  from mark_all_read_count_zero [where rejects = never and now = 9 and socket = "''s2''"
      and u = "Some ''u2''" and v = "''u2''" and s = inbox, OF h] before
  show ?thesis
    by simp
qed

subsection \<open>Fetching a conversation\<close>

text \<open>
  C9. \<^verbatim>\<open>GET /conversation/:conversationId\<close> is not read-only. Whenever it answers 200
  to a request with a non-empty \<^verbatim>\<open>userId\<close>, every message of the conversation that is
  addressed to that user and unread has been set to \<^verbatim>\<open>read = true\<close> with \<^verbatim>\<open>readAt\<close>
  the time of the request, and no other message has changed.
\<close>

theorem get_conversation_marks_read:
  assumes "get_conversation rejects now c (Some u) limit_q before_q s = (Response 200 b, s')"
    and "u \<noteq> []"
  shows "list_all2
           (\<lambda>m m'. (conversationId m = Some c \<and> receiverId m = Some u \<and> read m = False
                       \<longrightarrow> read m' = True \<and> readAt m' = Some now)
                  \<and> (\<not> (conversationId m = Some c \<and> receiverId m = Some u \<and> read m = False)
                       \<longrightarrow> m' = m))
           (messagesCollection s) (messagesCollection s')"
  using assms
  by (auto simp: get_conversation_def find_messages_def updateMany_messages_def updateMany_def
      access_def falsy_def internal_error_def Let_def list_all2_map_self
      split: if_splits option.splits prod.splits)

text \<open>
  The theorem at work on \<open>inbox\<close>: \<open>u2\<close> fetches the conversation at time 9; the page
  holds both messages as they were, and the message to \<open>u2\<close> is read in the store
  afterwards.
\<close>

theorem get_conversation_marks_read_witness:
  "fst (get_conversation never 9 ''u1_u2'' (Some ''u2'') None None inbox)
     = Response 200 (Messages_page (messagesCollection inbox) False)
   \<and> map read (messagesCollection
        (snd (get_conversation never 9 ''u1_u2'' (Some ''u2'') None None inbox))) = [True, False]
   \<and> map readAt (messagesCollection
        (snd (get_conversation never 9 ''u1_u2'' (Some ''u2'') None None inbox))) = [Some 9, None]"
proof -
  have ok: "fst (get_conversation never 9 ''u1_u2'' (Some ''u2'') None None inbox)
     = Response 200 (Messages_page (messagesCollection inbox) False)"
    by (simp add: get_conversation_def user1Id_def user2Id_def find_messages_def
        updateMany_messages_ok access_def falsy_def never_def inbox_def)
  have ne: "''u2'' \<noteq> []"
    by simp
  from get_conversation_marks_read [where rejects = never and now = 9 and c = "''u1_u2''"
      and u = "''u2''" and limit_q = None and before_q = None and s = inbox
      and b = "Messages_page (messagesCollection inbox) False"
      and s' = "snd (get_conversation never 9 ''u1_u2'' (Some ''u2'') None None inbox)", OF _ ne]
    ok
  show ?thesis
    unfolding inbox_messages by (auto simp: list_all2_Cons1 prod_eq_iff)
qed

subsection \<open>Rejections and the calls to the store before them\<close>








subsection \<open>Marking one notification read\<close>

lemma updateOne_count:
  "fst (updateOne q upd docs) = 0 \<longleftrightarrow>
     (case find q docs of None \<Rightarrow> True | Some d \<Rightarrow> upd d = d)"
  by (induction docs) (auto split: prod.splits)

lemma notification_read_again:
  "n\<lparr>n_read := True, n_readAt := Some now\<rparr> = n \<longleftrightarrow> n_read n \<and> n_readAt n = Some now"
  by (cases n) auto

text \<open>
  C10, as the code has it. When the store rejects none of its calls,
  \<^verbatim>\<open>PUT /mark-read/:notificationId\<close> answers 404 \<^verbatim>\<open>Notification not found\<close> exactly
  when the update modifies no document: no notification has the id and the owner, or the
  one that has is already read with a \<^verbatim>\<open>readAt\<close> equal to the time of the request.
  In every other case, an already read notification marked again at another time among
  them, it answers 200 with the unread count.
\<close>

theorem put_mark_read_not_found:
  assumes "\<not> rejects 0" "\<not> rejects 1"
  shows "(fst (put_mark_read rejects now (Some oid) u s)
            = Response 404 (Failure ''Notification not found'')
          \<longleftrightarrow> (case find (\<lambda>n. n_id n = Some oid \<and> userId n = u) (notificationsCollection s) of
                 None \<Rightarrow> True
               | Some n \<Rightarrow> n_read n = True \<and> n_readAt n = Some now))
       \<and> (fst (put_mark_read rejects now (Some oid) u s)
            \<noteq> Response 404 (Failure ''Notification not found'')
          \<longrightarrow> (\<exists>k. fst (put_mark_read rejects now (Some oid) u s) = Response 200 (Unread k)))"
proof -
  let ?q = "\<lambda>n. n_id n = Some oid \<and> userId n = u"
  let ?upd = "\<lambda>n. n\<lparr>n_read := True, n_readAt := Some now\<rparr>"
  have "fst (put_mark_read rejects now (Some oid) u s)
           = Response 404 (Failure ''Notification not found'')
     \<longleftrightarrow> fst (updateOne ?q ?upd (notificationsCollection s)) = 0"
    using assms
    by (simp add: put_mark_read_def updateOne_notification_def countDocuments_notifications_def
        access_def internal_error_def Let_def split: prod.split)
  then have nf: "fst (put_mark_read rejects now (Some oid) u s)
            = Response 404 (Failure ''Notification not found'')
          \<longleftrightarrow> (case find ?q (notificationsCollection s) of
                 None \<Rightarrow> True
               | Some n \<Rightarrow> n_read n = True \<and> n_readAt n = Some now)"
    by (simp add: updateOne_count notification_read_again cong: option.case_cong)
  have ok: "fst (put_mark_read rejects now (Some oid) u s)
            \<noteq> Response 404 (Failure ''Notification not found'')
          \<longrightarrow> (\<exists>k. fst (put_mark_read rejects now (Some oid) u s) = Response 200 (Unread k))"
    using assms
    by (simp add: put_mark_read_def updateOne_notification_def countDocuments_notifications_def
        access_def internal_error_def Let_def split: prod.split)
  from nf ok show ?thesis by blast
qed

text \<open>
  The theorem at work on \<open>inbox\<close>: an unknown id and a notification read at the very
  time of the request are answered 404; an unread notification is not.
\<close>

theorem put_mark_read_not_found_witness:
  "fst (put_mark_read never 9 (Some 12) (Some ''u2'') inbox)
     = Response 404 (Failure ''Notification not found'')
   \<and> fst (put_mark_read never 5 (Some 11) (Some ''u2'') inbox)
     = Response 404 (Failure ''Notification not found'')
   \<and> fst (put_mark_read never 9 (Some 10) (Some ''u2'') inbox)
     \<noteq> Response 404 (Failure ''Notification not found'')"
proof -
  have h: "\<not> never 0"
    by (simp add: never_def)
  have h1: "\<not> never 1"
    by (simp add: never_def)
  from put_mark_read_not_found [where rejects = never and now = 9 and oid = 12
      and u = "Some ''u2''" and s = inbox, OF h h1]
    put_mark_read_not_found [where rejects = never and now = 5 and oid = 11
      and u = "Some ''u2''" and s = inbox, OF h h1]
    put_mark_read_not_found [where rejects = never and now = 9 and oid = 10
      and u = "Some ''u2''" and s = inbox, OF h h1]
  show ?thesis
    by (simp add: inbox_def)
qed

text \<open>
  C10 as stated fails: marking a notification that is already read, at a later time,
  is no error. The filter does not look at the read flag, \<^verbatim>\<open>$set\<close> rewrites
  \<^verbatim>\<open>readAt\<close>, so one document is modified and the answer is 200.
\<close>

theorem read_notification_marked_again:
  "map n_id (notificationsCollection inbox) = [Some 10, Some 11]
   \<and> map userId (notificationsCollection inbox) = [Some ''u2'', Some ''u2'']
   \<and> map n_read (notificationsCollection inbox) = [False, True]
   \<and> fst (put_mark_read never 9 (Some 11) (Some ''u2'') inbox) = Response 200 (Unread 1)
   \<and> map n_readAt (notificationsCollection
         (snd (put_mark_read never 9 (Some 11) (Some ''u2'') inbox))) = [None, Some 9]"
  by (simp add: put_mark_read_def updateOne_notification_def countDocuments_notifications_def
      access_def never_def inbox_def)

end
